theory Spec2Isabelle
  imports Complex_Main
begin

section \<open>JavaScript numbers\<close>

text \<open>
  The simulation of \<^verbatim>\<open>app_Version2.js\<close> computes with JavaScript numbers. A number is
  modelled as a real value or one of the three special values of IEEE arithmetic; on the
  special values every operation follows the IEEE/ECMAScript tables, on finite values the
  operation is the exact real one. Rounding of a value to 53 bits, overflow of a finite
  result to an infinity and the sign of zero are not modelled (a zero divisor is taken as
  \<open>+0\<close>). What decides the control flow is modelled as the program has it: the options
  are numbers like any other, the loop counter stops growing at \<open>2^53\<close>, a loop that
  never ends returns nothing, and a call with more arguments than the engine accepts
  raises \<^verbatim>\<open>RangeError\<close>. Memory is not bounded.
\<close>

datatype jsnum = Fin real | PInf | NInf | NaN

fun isFinite :: "jsnum \<Rightarrow> bool" where
  "isFinite (Fin a) = True"
| "isFinite PInf = False"
| "isFinite NInf = False"
| "isFinite NaN = False"

text \<open>A number that is a count, such as the loop counter or an array length.\<close>

definition num :: "nat \<Rightarrow> jsnum" where
  "num n = Fin (of_nat n)"

fun jsign :: "jsnum \<Rightarrow> real" where
  "jsign (Fin a) = sgn a"
| "jsign PInf = 1"
| "jsign NInf = - 1"
| "jsign NaN = 0"

fun jneg :: "jsnum \<Rightarrow> jsnum" where
  "jneg (Fin a) = Fin (- a)"
| "jneg PInf = NInf"
| "jneg NInf = PInf"
| "jneg NaN = NaN"

text \<open>\<^verbatim>\<open>a + b\<close>\<close>

fun jadd :: "jsnum \<Rightarrow> jsnum \<Rightarrow> jsnum" where
  "jadd NaN b = NaN"
| "jadd a NaN = NaN"
| "jadd (Fin a) (Fin b) = Fin (a + b)"
| "jadd PInf NInf = NaN"
| "jadd NInf PInf = NaN"
| "jadd PInf b = PInf"
| "jadd a PInf = PInf"
| "jadd NInf b = NInf"
| "jadd a NInf = NInf"

text \<open>\<^verbatim>\<open>a - b\<close>\<close>

definition jsub :: "jsnum \<Rightarrow> jsnum \<Rightarrow> jsnum" where
  "jsub a b = jadd a (jneg b)"

text \<open>\<^verbatim>\<open>a * b\<close>: an infinity times zero is NaN, otherwise the signs multiply.\<close>

fun jmul :: "jsnum \<Rightarrow> jsnum \<Rightarrow> jsnum" where
  "jmul NaN b = NaN"
| "jmul a NaN = NaN"
| "jmul (Fin a) (Fin b) = Fin (a * b)"
| "jmul a b =
     (if 0 < jsign a * jsign b then PInf
      else if jsign a * jsign b < 0 then NInf
      else NaN)"

text \<open>\<^verbatim>\<open>a / b\<close>: a non-zero finite number over zero is an infinity, \<open>0 / 0\<close> and
  an infinity over an infinity are NaN, a finite number over an infinity is zero.\<close>

fun jdiv :: "jsnum \<Rightarrow> jsnum \<Rightarrow> jsnum" where
  "jdiv NaN b = NaN"
| "jdiv a NaN = NaN"
| "jdiv (Fin a) (Fin b) =
     (if b \<noteq> 0 then Fin (a / b)
      else if 0 < a then PInf
      else if a < 0 then NInf
      else NaN)"
| "jdiv (Fin a) b = Fin 0"
| "jdiv PInf (Fin b) = (if 0 \<le> b then PInf else NInf)"
| "jdiv NInf (Fin b) = (if 0 \<le> b then NInf else PInf)"
| "jdiv a b = NaN"

text \<open>\<^verbatim>\<open>a < b\<close> and \<^verbatim>\<open>a <= b\<close>: every comparison with NaN is false.\<close>

fun jlt :: "jsnum \<Rightarrow> jsnum \<Rightarrow> bool" where
  "jlt NaN b = False"
| "jlt a NaN = False"
| "jlt (Fin a) (Fin b) = (a < b)"
| "jlt NInf NInf = False"
| "jlt NInf b = True"
| "jlt a NInf = False"
| "jlt PInf b = False"
| "jlt a PInf = True"

fun jle :: "jsnum \<Rightarrow> jsnum \<Rightarrow> bool" where
  "jle NaN b = False"
| "jle a NaN = False"
| "jle (Fin a) (Fin b) = (a \<le> b)"
| "jle NInf b = True"
| "jle a PInf = True"
| "jle a b = False"

text \<open>\<^verbatim>\<open>a > b\<close> and \<^verbatim>\<open>a >= b\<close>\<close>

definition jgt :: "jsnum \<Rightarrow> jsnum \<Rightarrow> bool" where
  "jgt a b = jlt b a"

definition jge :: "jsnum \<Rightarrow> jsnum \<Rightarrow> bool" where
  "jge a b = jle b a"

text \<open>\<^verbatim>\<open>a % b\<close>: the remainder has the sign of the dividend; it is NaN for an
  infinite dividend or a zero divisor, and the dividend itself for an infinite divisor.\<close>

definition trunc :: "real \<Rightarrow> int" where
  "trunc r = (if 0 \<le> r then \<lfloor>r\<rfloor> else \<lceil>r\<rceil>)"

fun jmod :: "jsnum \<Rightarrow> jsnum \<Rightarrow> jsnum" where
  "jmod (Fin a) (Fin b) =
     (if b = 0 then NaN else Fin (a - b * of_int (trunc (a / b))))"
| "jmod (Fin a) PInf = Fin a"
| "jmod (Fin a) NInf = Fin a"
| "jmod a b = NaN"

text \<open>\<^verbatim>\<open>Math.max(a, b)\<close> and \<^verbatim>\<open>Math.min(a, b)\<close>: NaN if an argument is NaN.\<close>

fun Math_max :: "jsnum \<Rightarrow> jsnum \<Rightarrow> jsnum" where
  "Math_max NaN b = NaN"
| "Math_max a NaN = NaN"
| "Math_max a b = (if jlt a b then b else a)"

fun Math_min :: "jsnum \<Rightarrow> jsnum \<Rightarrow> jsnum" where
  "Math_min NaN b = NaN"
| "Math_min a NaN = NaN"
| "Math_min a b = (if jlt b a then b else a)"

text \<open>The only exception that the source can raise.\<close>

datatype error = RangeError

text \<open>\<^verbatim>\<open>Math.max(...xs)\<close> and \<^verbatim>\<open>Math.min(...xs)\<close>: every element of the array
  becomes an argument of the call. An engine accepts a bounded number of arguments,
  \<open>maxArgs\<close>, which differs between engines and is a parameter here; a longer array
  raises \<^verbatim>\<open>RangeError\<close>. Otherwise the scan of the arguments starts from
  \<open>-Infinity\<close> (from \<open>+Infinity\<close> for the minimum), which is the result for no
  argument.\<close>

definition Math_max_spread :: "nat \<Rightarrow> jsnum list \<Rightarrow> error + jsnum" where
  "Math_max_spread maxArgs xs =
     (if maxArgs < length xs then Inl RangeError else Inr (foldl Math_max NInf xs))"

definition Math_min_spread :: "nat \<Rightarrow> jsnum list \<Rightarrow> error + jsnum" where
  "Math_min_spread maxArgs xs =
     (if maxArgs < length xs then Inl RangeError else Inr (foldl Math_min PInf xs))"

definition Math_PI :: jsnum where
  "Math_PI = Fin pi"

fun Math_sin :: "jsnum \<Rightarrow> jsnum" where
  "Math_sin (Fin a) = Fin (sin a)"
| "Math_sin PInf = NaN"
| "Math_sin NInf = NaN"
| "Math_sin NaN = NaN"

fun Math_exp :: "jsnum \<Rightarrow> jsnum" where
  "Math_exp (Fin a) = Fin (exp a)"
| "Math_exp PInf = PInf"
| "Math_exp NInf = Fin 0"
| "Math_exp NaN = NaN"

text \<open>\<^verbatim>\<open>Math.pow(b, e)\<close> for a finite, positive, non-integer exponent \<open>e\<close> (the source
  calls it with \<open>1.5\<close> only): a negative finite base gives NaN, both infinities give
  \<open>+Infinity\<close>.\<close>

fun Math_pow :: "jsnum \<Rightarrow> real \<Rightarrow> jsnum" where
  "Math_pow (Fin b) e = (if b < 0 then NaN else Fin (b powr e))"
| "Math_pow PInf e = PInf"
| "Math_pow NInf e = PInf"
| "Math_pow NaN e = NaN"

section \<open>Elastance waveform, valve, resistance conversion\<close>

text \<open>\<^verbatim>\<open>const ts = 0.33\<close>, local to \<^verbatim>\<open>normalizedElastance\<close>.\<close>

definition ts :: jsnum where
  "ts = Fin (33 / 100)"

definition normalizedElastance :: "jsnum \<Rightarrow> jsnum" where
  "normalizedElastance tFrac' =
     (if jlt tFrac' ts
      then (let xx = jdiv tFrac' ts
            in Math_pow (Math_sin (jmul Math_PI xx)) (3 / 2))
      else (let xx = jdiv (jsub tFrac' ts) (jsub (Fin 1) ts)
            in jmul (Fin (5 / 100)) (Math_exp (jmul (Fin (- 3)) xx))))"

definition valveFlow :: "jsnum \<Rightarrow> jsnum \<Rightarrow> jsnum \<Rightarrow> jsnum" where
  "valveFlow P_up P_down Rval =
     (let dP = jsub P_up P_down
      in if jle dP (Fin 0) then Fin 0 else jdiv dP Rval)"

definition svr_to_Rperipheral :: "jsnum \<Rightarrow> jsnum" where
  "svr_to_Rperipheral svr' = jdiv (jdiv svr' (Fin 80)) (Fin 60)"

section \<open>The simulation\<close>

text \<open>The parameter object built by \<^verbatim>\<open>getParamsFromUI\<close>. The field \<^verbatim>\<open>comp\<close> is
  written \<open>comp'\<close>.\<close>

record params =
  hr :: jsnum
  edv :: jsnum
  esv :: jsnum
  autoEsv :: bool
  contr :: jsnum
  svr :: jsnum
  comp' :: jsnum
  rap :: jsnum
  Emax :: jsnum
  Emin :: jsnum
  V0 :: jsnum

text \<open>The options object: two numbers, not necessarily integers. The default argument
  of \<^verbatim>\<open>runSimulation\<close> is \<^verbatim>\<open>{stepsPerBeat: 400, beats: 8}\<close>.\<close>

record opts =
  stepsPerBeat :: jsnum
  beats :: jsnum

text \<open>An entry of \<^verbatim>\<open>traceP\<close> and an entry of \<^verbatim>\<open>pvPoints\<close> (fields \<^verbatim>\<open>x\<close>, \<^verbatim>\<open>y\<close>).\<close>

record sample =
  tFrac :: jsnum
  P_art :: jsnum
  P_lv :: jsnum
  V_lv :: jsnum

record point =
  pv_x :: jsnum
  pv_y :: jsnum

text \<open>The mutable locals of \<^verbatim>\<open>runSimulation\<close>: the two state variables and the two
  arrays.\<close>

record vars =
  v_V_lv :: jsnum
  v_P_art :: jsnum
  v_traceP :: "sample list"
  v_pvPoints :: "point list"

text \<open>The value returned by \<^verbatim>\<open>runSimulation\<close>.\<close>

record result =
  traceP :: "sample list"
  pvPoints :: "point list"
  EDV :: jsnum
  ESV :: jsnum
  SV :: jsnum
  CO :: jsnum
  MAP :: jsnum
  SBP :: jsnum
  DBP :: jsnum
  PP :: jsnum
  EF :: jsnum

text \<open>\<^verbatim>\<open>const totalSteps = opts.beats * opts.stepsPerBeat\<close>\<close>

definition totalSteps :: "opts \<Rightarrow> jsnum" where
  "totalSteps opt = jmul (beats opt) (stepsPerBeat opt)"

text \<open>The body of the \<^verbatim>\<open>for\<close> loop (lines 141 to 165) at counter \<open>step\<close>. The constants
  declared before the loop (lines 124 to 139) are bound first; \<^verbatim>\<open>Zc\<close> is never read and
  is left out. \<open>P_art\<close> is assigned before \<open>V_lv\<close>, as in the source, and the sample is
  pushed from the assigned values.\<close>

definition loop_body :: "params \<Rightarrow> opts \<Rightarrow> nat \<Rightarrow> vars \<Rightarrow> vars" where
  "loop_body p opt step v =
     (let dt = jdiv (jdiv (Fin 60) (hr p)) (stepsPerBeat opt);
          R_per = svr_to_Rperipheral (svr p);
          C = comp' p;
          Rval_mitral = Fin (5 / 1000);
          Rval_aortic = Fin (25 / 10000);
          P_ven = rap p;
          t = jmul (num step) dt;
          T = jdiv (Fin 60) (hr p);
          tFrac' = jdiv (jmod t T) T;
          En = normalizedElastance tFrac';
          E_t = jadd (Emin p) (jmul (jsub (Emax p) (Emin p)) En);
          P_lv' = jmul E_t (Math_max (Fin 0) (jsub (v_V_lv v) (V0 p)));
          Qin = valveFlow P_ven P_lv' Rval_mitral;
          Qout = valveFlow P_lv' (v_P_art v) Rval_aortic;
          dPdt = jdiv (jsub Qout (jdiv (v_P_art v) R_per)) C;
          v1 = v\<lparr>v_P_art := jadd (v_P_art v) (jmul dPdt dt)\<rparr>;
          v2 = v1\<lparr>v_V_lv := jadd (v_V_lv v1) (jmul (jsub Qin Qout) dt)\<rparr>
      in if jge (num step) (jsub (totalSteps opt) (stepsPerBeat opt))
         then v2\<lparr>v_traceP := v_traceP v2 @
                    [\<lparr>tFrac = tFrac', P_art = v_P_art v2, P_lv = P_lv', V_lv = v_V_lv v2\<rparr>],
                 v_pvPoints := v_pvPoints v2 @
                    [\<lparr>pv_x = v_V_lv v2, pv_y = P_lv'\<rparr>]\<rparr>
         else v2)"

text \<open>\<^verbatim>\<open>step++\<close>: the counter is a number, and \<open>2^53 + 1\<close> rounds back to
  \<open>2^53\<close>.\<close>

definition next_step :: "nat \<Rightarrow> nat" where
  "next_step step = (if step < 2 ^ 53 then Suc step else step)"

text \<open>\<^verbatim>\<open>for(let step=0; step<totalSteps; step++)\<close>, entered at counter \<open>step\<close>. The
  loop need not end (\<open>totalSteps\<close> may be \<open>+Infinity\<close> or beyond \<open>2^53\<close>): the value
  \<open>None\<close> is a loop that runs for ever.\<close>

partial_function (option) run_loop :: "params \<Rightarrow> opts \<Rightarrow> nat \<Rightarrow> vars \<Rightarrow> vars option" where
  "run_loop p opt step v =
     (if jlt (num step) (totalSteps opt)
      then run_loop p opt (next_step step) (loop_body p opt step v)
      else Some v)"

text \<open>The summary metrics (lines 168 to 189), computed from the two arrays; the four
  spread calls are made in the order of the source and the first that raises ends the
  computation. The array \<^verbatim>\<open>Vvals\<close> of line 170 and \<^verbatim>\<open>P_lv_vals\<close> are built by
  \<^verbatim>\<open>map\<close> and \<^verbatim>\<open>concat\<close>, which do not raise, and are never read; they are left
  out.\<close>

definition summary :: "nat \<Rightarrow> params \<Rightarrow> sample list \<Rightarrow> point list \<Rightarrow> error + result" where
  "summary maxArgs p trace pts =
     (let Vlast = map V_lv trace;
          P_art_vals = map P_art trace
      in case Math_max_spread maxArgs Vlast of
           Inl e \<Rightarrow> Inl e
         | Inr EDV' \<Rightarrow>
        (case Math_min_spread maxArgs Vlast of
           Inl e \<Rightarrow> Inl e
         | Inr ESV' \<Rightarrow>
        (let SV' = Math_max (Fin 0) (jsub EDV' ESV');
             CO' = jdiv (jmul (hr p) SV') (Fin 1000);
             MAP' = jdiv (foldl jadd (Fin 0) P_art_vals) (num (length P_art_vals))
         in case Math_max_spread maxArgs P_art_vals of
              Inl e \<Rightarrow> Inl e
            | Inr SBP' \<Rightarrow>
           (case Math_min_spread maxArgs P_art_vals of
              Inl e \<Rightarrow> Inl e
            | Inr DBP' \<Rightarrow>
           (let PP' = jsub SBP' DBP';
                EF' = (if jgt EDV' (Fin 0) then jmul (jdiv SV' EDV') (Fin 100) else Fin 0)
            in Inr \<lparr>traceP = trace, pvPoints = pts,
                    EDV = EDV', ESV = ESV', SV = SV', CO = CO', MAP = MAP',
                    SBP = SBP', DBP = DBP', PP = PP', EF = EF'\<rparr>)))))"

text \<open>The state before the first step: \<^verbatim>\<open>V_lv = params.edv\<close>, \<^verbatim>\<open>P_art = 90\<close>, both
  arrays empty.\<close>

definition initial :: "params \<Rightarrow> vars" where
  "initial p = \<lparr>v_V_lv = edv p, v_P_art = Fin 90, v_traceP = [], v_pvPoints = []\<rparr>"

text \<open>A call of \<^verbatim>\<open>runSimulation\<close> in an engine that accepts \<open>maxArgs\<close> arguments:
  \<open>None\<close> when the loop never ends, \<open>Some (Inl RangeError)\<close> when a spread call
  raises, \<open>Some (Inr r)\<close> when the call returns \<open>r\<close>.\<close>

definition runSimulation :: "nat \<Rightarrow> params \<Rightarrow> opts \<Rightarrow> (error + result) option" where
  "runSimulation maxArgs p opt =
     (case run_loop p opt 0 (initial p) of
        None \<Rightarrow> None
      | Some v \<Rightarrow> Some (summary maxArgs p (v_traceP v) (v_pvPoints v)))"

section \<open>Steps, states and iterations\<close>

text \<open>The sub-expressions of the loop body, by the names of their constants: the time
  step, the cycle phase at counter \<open>step\<close>, the ventricular pressure for the volume
  \<open>V\<close>, and the two valve flows for the volume \<open>V\<close> and the arterial pressure
  \<open>P\<close>.\<close>

definition step_dt :: "params \<Rightarrow> opts \<Rightarrow> jsnum" where
  "step_dt p opt = jdiv (jdiv (Fin 60) (hr p)) (stepsPerBeat opt)"

definition step_tFrac :: "params \<Rightarrow> opts \<Rightarrow> nat \<Rightarrow> jsnum" where
  "step_tFrac p opt step =
     (let t = jmul (num step) (step_dt p opt);
          T = jdiv (Fin 60) (hr p)
      in jdiv (jmod t T) T)"

definition step_P_lv :: "params \<Rightarrow> opts \<Rightarrow> nat \<Rightarrow> jsnum \<Rightarrow> jsnum" where
  "step_P_lv p opt step V =
     (let En = normalizedElastance (step_tFrac p opt step);
          E_t = jadd (Emin p) (jmul (jsub (Emax p) (Emin p)) En)
      in jmul E_t (Math_max (Fin 0) (jsub V (V0 p))))"

definition step_Qin :: "params \<Rightarrow> opts \<Rightarrow> nat \<Rightarrow> jsnum \<Rightarrow> jsnum" where
  "step_Qin p opt step V = valveFlow (rap p) (step_P_lv p opt step V) (Fin (5 / 1000))"

definition step_Qout :: "params \<Rightarrow> opts \<Rightarrow> nat \<Rightarrow> jsnum \<Rightarrow> jsnum \<Rightarrow> jsnum" where
  "step_Qout p opt step V P = valveFlow (step_P_lv p opt step V) P (Fin (25 / 10000))"

text \<open>The test of line 162: the sample of the step with counter \<open>n\<close> is kept.\<close>

definition kept :: "opts \<Rightarrow> nat \<Rightarrow> bool" where
  "kept opt n = jge (num n) (jsub (totalSteps opt) (stepsPerBeat opt))"

text \<open>The number of times the loop body is executed when \<^verbatim>\<open>totalSteps\<close> has the value
  \<open>T\<close>, or \<open>None\<close> when the loop does not end: the counter runs through
  \<open>0, 1, 2, ...\<close> while it is below \<open>T\<close> and cannot pass \<open>2^53\<close>.\<close>

fun iterations :: "jsnum \<Rightarrow> nat option" where
  "iterations (Fin r) = (if r \<le> 2 ^ 53 then Some (nat \<lceil>r\<rceil>) else None)"
| "iterations PInf = None"
| "iterations NInf = Some 0"
| "iterations NaN = Some 0"

text \<open>The two state variables \<open>(V_lv, P_art)\<close> on entry to the step with counter \<open>n\<close>:
  the loop body applied \<open>n\<close> times to the initial values.\<close>

fun stateAt :: "params \<Rightarrow> opts \<Rightarrow> nat \<Rightarrow> jsnum \<times> jsnum" where
  "stateAt p opt 0 = (edv p, Fin 90)"
| "stateAt p opt (Suc n) =
     (let v = loop_body p opt n
                \<lparr>v_V_lv = fst (stateAt p opt n), v_P_art = snd (stateAt p opt n),
                 v_traceP = [], v_pvPoints = []\<rparr>
      in (v_V_lv v, v_P_art v))"

text \<open>The sample of the step with counter \<open>n\<close>: its phase, the ventricular pressure
  computed in it, and the two state variables after it.\<close>

definition sampleAt :: "params \<Rightarrow> opts \<Rightarrow> nat \<Rightarrow> sample" where
  "sampleAt p opt n =
     \<lparr>tFrac = step_tFrac p opt n,
      P_art = snd (stateAt p opt (Suc n)),
      P_lv = step_P_lv p opt n (fst (stateAt p opt n)),
      V_lv = fst (stateAt p opt (Suc n))\<rparr>"

definition pv_of :: "sample \<Rightarrow> point" where
  "pv_of s = \<lparr>pv_x = V_lv s, pv_y = P_lv s\<rparr>"

text \<open>Concrete inputs: a parameter object with a heart rate of 60, so that \<open>T = 1\<close> and
  the phase of step 0 is 0; the same with \<open>Emax = Emin\<close>; the same with a compliance of
  0. Options of one step, of two beats of one step, of no beat, of one beat of two steps,
  and of half a beat of two steps.\<close>

definition base :: params where
  "base = \<lparr>hr = Fin 60, edv = Fin 120, esv = Fin 50, autoEsv = False, contr = Fin (1 / 2),
           svr = Fin 1200, comp' = Fin (3 / 2), rap = Fin 2, Emax = Fin 2, Emin = Fin (1 / 2),
           V0 = Fin 10\<rparr>"

definition flat :: params where
  "flat = base\<lparr>Emax := Fin (1 / 2)\<rparr>"

definition zero_comp :: params where
  "zero_comp = base\<lparr>comp' := Fin 0\<rparr>"

definition one_step :: opts where
  "one_step = \<lparr>stepsPerBeat = Fin 1, beats = Fin 1\<rparr>"

definition two_beats :: opts where
  "two_beats = \<lparr>stepsPerBeat = Fin 1, beats = Fin 2\<rparr>"

definition no_beats :: opts where
  "no_beats = \<lparr>stepsPerBeat = Fin 1, beats = Fin 0\<rparr>"

definition two_steps :: opts where
  "two_steps = \<lparr>stepsPerBeat = Fin 2, beats = Fin 1\<rparr>"

definition half_beat :: opts where
  "half_beat = \<lparr>stepsPerBeat = Fin 2, beats = Fin (1 / 2)\<rparr>"

text \<open>A state on entry to a step whose arterial pressure is \<open>+Infinity\<close>, as an
  overflow leaves it.\<close>

definition overflowed :: vars where
  "overflowed = \<lparr>v_V_lv = Fin 120, v_P_art = PInf, v_traceP = [], v_pvPoints = []\<rparr>"

section \<open>The loop body and the loop\<close>

lemma loop_body_state:
  "v_P_art (loop_body p opt step v) =
     jadd (v_P_art v)
       (jmul (jdiv (jsub (step_Qout p opt step (v_V_lv v) (v_P_art v))
                     (jdiv (v_P_art v) (svr_to_Rperipheral (svr p)))) (comp' p))
             (step_dt p opt))"
  "v_V_lv (loop_body p opt step v) =
     jadd (v_V_lv v)
       (jmul (jsub (step_Qin p opt step (v_V_lv v))
                   (step_Qout p opt step (v_V_lv v) (v_P_art v)))
             (step_dt p opt))"
  by (simp_all add: loop_body_def Let_def step_dt_def step_tFrac_def step_P_lv_def
      step_Qin_def step_Qout_def)

lemma loop_body_arrays:
  "v_traceP (loop_body p opt step v) =
     (if kept opt step
      then v_traceP v @
           [\<lparr>tFrac = step_tFrac p opt step, P_art = v_P_art (loop_body p opt step v),
             P_lv = step_P_lv p opt step (v_V_lv v), V_lv = v_V_lv (loop_body p opt step v)\<rparr>]
      else v_traceP v)"
  "v_pvPoints (loop_body p opt step v) =
     (if kept opt step
      then v_pvPoints v @
           [\<lparr>pv_x = v_V_lv (loop_body p opt step v),
             pv_y = step_P_lv p opt step (v_V_lv v)\<rparr>]
      else v_pvPoints v)"
  by (simp_all add: loop_body_def Let_def step_dt_def step_tFrac_def step_P_lv_def
      step_Qin_def step_Qout_def kept_def)

lemma stateAt_Suc:
  assumes "v_V_lv v = fst (stateAt p opt n)" and "v_P_art v = snd (stateAt p opt n)"
  shows "stateAt p opt (Suc n) =
           (v_V_lv (loop_body p opt n v), v_P_art (loop_body p opt n v))"
  using assms by (simp add: Let_def loop_body_state)

lemma iterations_bound:
  assumes "iterations T = Some N"
  shows "N \<le> 2 ^ 53"
proof (cases T)
  case (Fin r)
  with assms have r: "r \<le> 2 ^ 53" and N: "N = nat \<lceil>r\<rceil>"
    by (simp_all split: if_splits)
  from r have "\<lceil>r\<rceil> \<le> 2 ^ 53"
    by (simp add: ceiling_le_iff)
  then show ?thesis
    unfolding N by (simp add: nat_le_iff)
qed (use assms in simp_all)

lemma loop_test:
  assumes "iterations T = Some N"
  shows "jlt (num step) T = (step < N)"
proof (cases T)
  case (Fin r)
  with assms have N: "N = nat \<lceil>r\<rceil>"
    by (simp split: if_splits)
  have "(real step < r) = (int step < \<lceil>r\<rceil>)"
    by (simp add: less_ceiling_iff)
  then show ?thesis
    unfolding Fin N by (simp add: num_def zless_nat_eq_int_zless)
qed (use assms in \<open>simp_all add: num_def\<close>)

lemma run_loop_fold:
  assumes "iterations (totalSteps opt) = Some N"
  shows "run_loop p opt step v = Some (fold (loop_body p opt) [step ..< N] v)"
proof (induction "N - step" arbitrary: step v)
  case 0
  then have "\<not> step < N" by simp
  then show ?case
    by (subst run_loop.simps) (simp add: loop_test [OF assms])
next
  case (Suc k)
  then have lt: "step < N" by simp
  with iterations_bound [OF assms] have "next_step step = Suc step"
    by (simp add: next_step_def)
  moreover from Suc have "k = N - Suc step" by simp
  then have "run_loop p opt (Suc step) (loop_body p opt step v) =
               Some (fold (loop_body p opt) [Suc step ..< N] (loop_body p opt step v))"
    by (rule Suc.hyps(1))
  ultimately show ?case
    using lt by (subst run_loop.simps) (simp add: loop_test [OF assms] upt_conv_Cons)
qed

lemma loop_test_diverging:
  assumes "iterations T = None" and "step \<le> 2 ^ 53"
  shows "jlt (num step) T"
proof (cases T)
  case (Fin r)
  with assms(1) have "2 ^ 53 < r"
    by (simp split: if_splits)
  moreover from assms(2) have "real step \<le> 2 ^ 53"
    by (metis of_nat_le_iff of_nat_numeral of_nat_power)
  ultimately show ?thesis
    unfolding Fin by (simp add: num_def)
qed (use assms in \<open>simp_all add: num_def\<close>)

lemma run_loop_diverges:
  assumes "iterations (totalSteps opt) = None" and "step \<le> 2 ^ 53"
  shows "run_loop p opt step v = None"
proof (rule ccontr)
  assume "run_loop p opt step v \<noteq> None"
  then obtain w where w: "run_loop p opt step v = Some w"
    by blast
  have "iterations (totalSteps opt) = None \<longrightarrow> step \<le> 2 ^ 53 \<longrightarrow> False"
  proof (rule run_loop.raw_induct
      [where P = "\<lambda>p opt step v w. iterations (totalSteps opt) = None \<longrightarrow> step \<le> 2 ^ 53 \<longrightarrow> False",
       OF _ w])
    fix f p opt step v w
    assume IH: "\<And>p opt step v w. f p opt step v = Some w \<Longrightarrow>
                  iterations (totalSteps opt) = None \<longrightarrow> step \<le> 2 ^ 53 \<longrightarrow> False"
      and eq: "(if jlt (num step) (totalSteps opt)
                then f p opt (next_step step) (loop_body p opt step v) else Some v) = Some w"
    show "iterations (totalSteps opt) = None \<longrightarrow> step \<le> 2 ^ 53 \<longrightarrow> False"
    proof (intro impI)
      assume T: "iterations (totalSteps opt) = None" and s: "step \<le> 2 ^ 53"
      from loop_test_diverging [OF T s] eq
      have "f p opt (next_step step) (loop_body p opt step v) = Some w"
        by simp
      moreover from s have "next_step step \<le> 2 ^ 53"
        by (simp add: next_step_def)
      ultimately show False
        using IH T by blast
    qed
  qed
  with assms show False by blast
qed

text \<open>The body applied to the steps \<open>step, ..., N - 1\<close> in order, from the state of step
  \<open>step\<close>: the state of step \<open>N\<close>, with the kept samples appended.\<close>

lemma fold_loop_body:
  assumes "step \<le> N"
    and "v_V_lv v = fst (stateAt p opt step)"
    and "v_P_art v = snd (stateAt p opt step)"
  shows "v_V_lv (fold (loop_body p opt) [step ..< N] v) = fst (stateAt p opt N) \<and>
         v_P_art (fold (loop_body p opt) [step ..< N] v) = snd (stateAt p opt N) \<and>
         v_traceP (fold (loop_body p opt) [step ..< N] v) =
           v_traceP v @ map (sampleAt p opt) (filter (kept opt) [step ..< N])"
  using assms(1)
proof (induction N rule: dec_induct)
  case base
  show ?case
    using assms(2,3) by simp
next
  case (step n)
  let ?w = "fold (loop_body p opt) [step ..< n] v"
  have fold: "fold (loop_body p opt) [step ..< Suc n] v = loop_body p opt n ?w"
    using step.hyps(1) by simp
  have st: "stateAt p opt (Suc n) =
              (v_V_lv (loop_body p opt n ?w), v_P_art (loop_body p opt n ?w))"
    using step.IH by (intro stateAt_Suc) simp_all
  have smp: "sampleAt p opt n =
               \<lparr>tFrac = step_tFrac p opt n, P_art = v_P_art (loop_body p opt n ?w),
                P_lv = step_P_lv p opt n (v_V_lv ?w), V_lv = v_V_lv (loop_body p opt n ?w)\<rparr>"
    unfolding sampleAt_def st using step.IH by simp
  have a: "v_V_lv (loop_body p opt n ?w) = fst (stateAt p opt (Suc n))"
    "v_P_art (loop_body p opt n ?w) = snd (stateAt p opt (Suc n))"
    unfolding st by simp_all
  have b: "filter (kept opt) [step ..< Suc n] =
             filter (kept opt) [step ..< n] @ (if kept opt n then [n] else [])"
    using step.hyps(1) by simp
  have c: "v_traceP (loop_body p opt n ?w) =
             v_traceP v @ map (sampleAt p opt) (filter (kept opt) [step ..< Suc n])"
    unfolding b loop_body_arrays(1) smp [symmetric] using step.IH by simp
  show ?case
    unfolding fold using a c by blast
qed

lemma fold_loop_body_pv:
  assumes "v_pvPoints v = map pv_of (v_traceP v)"
  shows "v_pvPoints (fold (loop_body p opt) ns v) =
           map pv_of (v_traceP (fold (loop_body p opt) ns v))"
  using assms
proof (induction ns arbitrary: v)
  case Nil
  then show ?case by simp
next
  case (Cons n ns)
  have "v_pvPoints (loop_body p opt n v) = map pv_of (v_traceP (loop_body p opt n v))"
    using Cons.prems by (simp add: loop_body_arrays pv_of_def)
  from Cons.IH [OF this] show ?case by simp
qed

lemma summary_cases:
  "summary L p tr pts =
     (if L < length tr then Inl RangeError
      else Inr \<lparr>traceP = tr, pvPoints = pts,
             EDV = foldl Math_max NInf (map V_lv tr),
             ESV = foldl Math_min PInf (map V_lv tr),
             SV = Math_max (Fin 0)
                    (jsub (foldl Math_max NInf (map V_lv tr)) (foldl Math_min PInf (map V_lv tr))),
             CO = jdiv (jmul (hr p) (Math_max (Fin 0)
                    (jsub (foldl Math_max NInf (map V_lv tr))
                          (foldl Math_min PInf (map V_lv tr))))) (Fin 1000),
             MAP = jdiv (foldl jadd (Fin 0) (map P_art tr)) (num (length tr)),
             SBP = foldl Math_max NInf (map P_art tr),
             DBP = foldl Math_min PInf (map P_art tr),
             PP = jsub (foldl Math_max NInf (map P_art tr)) (foldl Math_min PInf (map P_art tr)),
             EF = (if jgt (foldl Math_max NInf (map V_lv tr)) (Fin 0)
                   then jmul (jdiv (Math_max (Fin 0)
                          (jsub (foldl Math_max NInf (map V_lv tr))
                                (foldl Math_min PInf (map V_lv tr))))
                          (foldl Math_max NInf (map V_lv tr))) (Fin 100)
                   else Fin 0)\<rparr>)"
  by (simp add: summary_def Math_max_spread_def Math_min_spread_def Let_def)

lemma summary_Inr:
  assumes "summary L p tr pts = Inr r"
  shows "length tr \<le> L" and "traceP r = tr" and "pvPoints r = pts"
    and "EDV r = foldl Math_max NInf (map V_lv tr)"
    and "ESV r = foldl Math_min PInf (map V_lv tr)"
    and "SV r = Math_max (Fin 0) (jsub (EDV r) (ESV r))"
    and "SBP r = foldl Math_max NInf (map P_art tr)"
    and "DBP r = foldl Math_min PInf (map P_art tr)"
    and "PP r = jsub (SBP r) (DBP r)"
  using assms unfolding summary_cases by (auto split: if_splits)

lemma summary_returns:
  assumes "length tr \<le> L"
  shows "\<exists>r. summary L p tr pts = Inr r \<and> traceP r = tr \<and> pvPoints r = pts"
  using assms unfolding summary_cases by simp

lemma summary_raises:
  assumes "L < length tr"
  shows "summary L p tr pts = Inl RangeError"
  using assms unfolding summary_cases by simp

text \<open>The samples that a run keeps, when its loop ends after \<open>N\<close> steps.\<close>

lemma runSimulation_ends:
  assumes "iterations (totalSteps opt) = Some N"
  shows "runSimulation L p opt =
           Some (summary L p (map (sampleAt p opt) (filter (kept opt) [0 ..< N]))
                   (map pv_of (map (sampleAt p opt) (filter (kept opt) [0 ..< N]))))"
proof -
  let ?w = "fold (loop_body p opt) [0 ..< N] (initial p)"
  have "v_traceP ?w = v_traceP (initial p) @ map (sampleAt p opt) (filter (kept opt) [0 ..< N])"
    using fold_loop_body [of 0 N "initial p" p opt] by (simp add: initial_def)
  then have tr: "v_traceP ?w = map (sampleAt p opt) (filter (kept opt) [0 ..< N])"
    by (simp add: initial_def)
  have "v_pvPoints ?w = map pv_of (v_traceP ?w)"
    by (rule fold_loop_body_pv) (simp add: initial_def)
  then have pv: "v_pvPoints ?w = map pv_of (map (sampleAt p opt) (filter (kept opt) [0 ..< N]))"
    unfolding tr .
  show ?thesis
    by (simp only: runSimulation_def run_loop_fold [OF assms] option.case tr pv)
qed

lemma runSimulation_never_ends:
  assumes "iterations (totalSteps opt) = None"
  shows "runSimulation L p opt = None"
  unfolding runSimulation_def using run_loop_diverges [OF assms, of 0 p "initial p"] by simp

lemma filter_from:
  "filter (\<lambda>n. k \<le> n) [0 ..< m] = [k ..< m]"
proof (induction m)
  case 0
  show ?case by simp
next
  case (Suc m)
  then show ?case
    by (cases "k \<le> m") simp_all
qed

text \<open>For positive integer options the loop makes \<open>beats * stepsPerBeat\<close> steps and keeps
  the samples of the last \<open>stepsPerBeat\<close> of them.\<close>

lemma integer_options:
  assumes "beats opt = num b" and "stepsPerBeat opt = num s"
    and "0 < b" and "0 < s" and "b * s \<le> 2 ^ 53"
  shows "iterations (totalSteps opt) = Some (b * s)"
    and "filter (kept opt) [0 ..< b * s] = [b * s - s ..< b * s]"
proof -
  have T: "totalSteps opt = Fin (real (b * s))"
    by (simp add: totalSteps_def assms(1,2) num_def)
  from assms(5) have "real (b * s) \<le> 2 ^ 53"
    by (metis of_nat_le_iff of_nat_numeral of_nat_power)
  moreover have "nat \<lceil>real (b * s)\<rceil> = b * s"
    by (simp only: ceiling_of_nat nat_int)
  ultimately show "iterations (totalSteps opt) = Some (b * s)"
    unfolding T by (simp only: iterations.simps if_True)
  from assms(3) have "s \<le> b * s"
    by simp
  then have "real (b * s) - real s = real (b * s - s)"
    by (simp add: of_nat_diff)
  then have "kept opt n = (b * s - s \<le> n)" for n
    unfolding kept_def T assms(2) num_def jge_def jsub_def by simp
  then have "kept opt = (\<lambda>n. b * s - s \<le> n)"
    by (intro ext)
  then show "filter (kept opt) [0 ..< b * s] = [b * s - s ..< b * s]"
    by (simp only: filter_from)
qed

text \<open>With \<open>beats \<le> 0\<close> or \<open>stepsPerBeat \<le> 0\<close> a loop that ends keeps no sample.\<close>

lemma nonpositive_options:
  assumes "jle (beats opt) (Fin 0) \<or> jle (stepsPerBeat opt) (Fin 0)"
    and "iterations (totalSteps opt) = Some N"
  shows "filter (kept opt) [0 ..< N] = []"
proof (cases "\<exists>b s. beats opt = Fin b \<and> stepsPerBeat opt = Fin s")
  case True
  then obtain b s where bs: "beats opt = Fin b" "stepsPerBeat opt = Fin s"
    by blast
  then have T: "totalSteps opt = Fin (b * s)"
    by (simp add: totalSteps_def)
  with assms(2) have N: "N = nat \<lceil>b * s\<rceil>"
    by (simp split: if_splits)
  have "\<not> kept opt n" if "n < N" for n
  proof -
    from that have n: "real n < b * s"
      unfolding N by (simp add: zless_nat_eq_int_zless less_ceiling_iff)
    then have "0 < b * s"
      by (meson le_less_trans of_nat_0_le_iff)
    with assms(1) bs have "s < 0"
      by (auto simp: zero_less_mult_iff)
    with n show ?thesis
      unfolding kept_def T bs jge_def jsub_def num_def by simp
  qed
  then show ?thesis
    by (simp add: filter_empty_conv)
next
  case False
  then have "totalSteps opt = NInf \<or> totalSteps opt = NaN \<or> totalSteps opt = PInf"
    unfolding totalSteps_def
    by (cases "beats opt"; cases "stepsPerBeat opt") auto
  with assms(2) have "N = 0"
    by auto
  then show ?thesis by simp
qed

text \<open>Facts for evaluating a run on concrete numbers.\<close>

lemma normalizedElastance_at_0: "normalizedElastance (Fin 0) = Fin 0"
  by (simp add: normalizedElastance_def ts_def Math_PI_def)

lemmas run_eval =
  runSimulation_def run_loop.simps loop_body_def initial_def summary_def totalSteps_def
  next_step_def base_def flat_def zero_comp_def one_step_def two_beats_def no_beats_def
  two_steps_def half_beat_def overflowed_def
  num_def trunc_def normalizedElastance_at_0 svr_to_Rperipheral_def valveFlow_def
  jsub_def jgt_def jge_def Let_def Math_max_spread_def Math_min_spread_def

lemma runSimulation_Inr:
  assumes "runSimulation L p opt = Some (Inr r)"
  shows "\<exists>N. iterations (totalSteps opt) = Some N \<and> length (traceP r) \<le> L \<and>
           traceP r = map (sampleAt p opt) (filter (kept opt) [0 ..< N]) \<and>
           pvPoints r = map pv_of (traceP r) \<and>
           summary L p (traceP r) (pvPoints r) = Inr r"
proof (cases "iterations (totalSteps opt)")
  case None
  from runSimulation_never_ends [OF this, of L p] assms show ?thesis
    by simp
next
  case (Some N)
  let ?tr = "map (sampleAt p opt) (filter (kept opt) [0 ..< N])"
  from runSimulation_ends [OF Some, of L p] assms
  have s: "summary L p ?tr (map pv_of ?tr) = Inr r"
    by simp
  from summary_Inr(1-3) [OF s] s Some show ?thesis
    by simp
qed

lemma run_flat_two_steps:
  "runSimulation 65535 flat two_steps =
     Some (Inr \<lparr>traceP =
                 [\<lparr>tFrac = Fin 0, P_art = Fin (- 30), P_lv = Fin 55, V_lv = Fin 120\<rparr>,
                  \<lparr>tFrac = Fin (1 / 2), P_art = Fin (34030 / 3), P_lv = Fin 55,
                   V_lv = Fin (- 16880)\<rparr>],
               pvPoints = [\<lparr>pv_x = Fin 120, pv_y = Fin 55\<rparr>,
                           \<lparr>pv_x = Fin (- 16880), pv_y = Fin 55\<rparr>],
               EDV = Fin 120, ESV = Fin (- 16880), SV = Fin 17000, CO = Fin 1020,
               MAP = Fin (16970 / 3), SBP = Fin (34030 / 3), DBP = Fin (- 30),
               PP = Fin (34120 / 3), EF = Fin (42500 / 3)\<rparr>)"
  by (simp add: run_eval normalizedElastance_def ts_def Math_PI_def)

section \<open>The trace of the final beat\<close>

text \<open>
  Claim C5, as amended. For every run with positive integer \<open>beats\<close> and
  \<open>stepsPerBeat\<close>, at most \<open>2^53\<close> steps in all and \<open>stepsPerBeat\<close> within the
  argument limit of the engine, the run returns and the returned trace has exactly
  \<open>stepsPerBeat\<close> samples: the samples of the steps
  \<open>beats * stepsPerBeat - stepsPerBeat, ..., beats * stepsPerBeat - 1\<close>, the last
  \<open>stepsPerBeat\<close> steps of the run, in increasing order of the step counter. No sample
  of an earlier step is in it. With \<open>stepsPerBeat\<close> above the argument limit the run
  raises \<^verbatim>\<open>RangeError\<close> and returns no trace.
\<close>

theorem trace_is_final_beat:
  assumes "beats opt = num b" and "stepsPerBeat opt = num s"
    and "0 < b" and "0 < s" and "b * s \<le> 2 ^ 53"
  shows "(s \<le> L \<longrightarrow>
            (\<exists>r. runSimulation L p opt = Some (Inr r) \<and>
                 traceP r = map (sampleAt p opt) [b * s - s ..< b * s] \<and>
                 length (traceP r) = s)) \<and>
         (L < s \<longrightarrow> runSimulation L p opt = Some (Inl RangeError))"
proof -
  let ?tr = "map (sampleAt p opt) [b * s - s ..< b * s]"
  from assms(3) have "s \<le> b * s"
    by simp
  then have len: "length ?tr = s"
    by simp
  have run: "runSimulation L p opt = Some (summary L p ?tr (map pv_of ?tr))"
    using runSimulation_ends [OF integer_options(1) [OF assms], of L p]
    unfolding integer_options(2) [OF assms] .
  show ?thesis
  proof (intro conjI impI)
    assume "s \<le> L"
    then have "length ?tr \<le> L"
      unfolding len .
    from summary_returns [OF this, of p "map pv_of ?tr"] run len
    show "\<exists>r. runSimulation L p opt = Some (Inr r) \<and> traceP r = ?tr \<and> length (traceP r) = s"
      by auto
  next
    assume "L < s"
    then have "L < length ?tr"
      unfolding len .
    from summary_raises [OF this, of p "map pv_of ?tr"] run
    show "runSimulation L p opt = Some (Inl RangeError)"
      by simp
  qed
qed

theorem trace_is_final_beat_witness:
  "beats two_beats = num 2 \<and> stepsPerBeat two_beats = num 1 \<and>
   (\<exists>r. runSimulation 65535 base two_beats = Some (Inr r) \<and>
        traceP r = [sampleAt base two_beats 1] \<and> length (traceP r) = 1) \<and>
   runSimulation 65535 base \<lparr>stepsPerBeat = num 65536, beats = num 1\<rparr> =
     Some (Inl RangeError)"
proof -
  have a: "beats two_beats = num 2" "stepsPerBeat two_beats = num 1"
    by (simp_all add: two_beats_def num_def)
  have b: "(0::nat) < 2" "(0::nat) < 1" "(2::nat) * 1 \<le> 2 ^ 53"
    by simp_all
  have c: "beats \<lparr>stepsPerBeat = num 65536, beats = num 1\<rparr> = num 1"
    "stepsPerBeat \<lparr>stepsPerBeat = num 65536, beats = num 1\<rparr> = num 65536"
    by simp_all
  have d: "(0::nat) < 65536" "(1::nat) * 65536 \<le> 2 ^ 53"
    by simp_all
  from trace_is_final_beat [OF a b, of 65535 base]
    trace_is_final_beat [OF c b(2) d, of 65535 base] a
  show ?thesis
    by (simp add: upt_conv_Cons del: stateAt.simps)
qed

text \<open>With half a beat of two steps both options are positive, one step is made and one
  sample returned.\<close>

theorem trace_is_final_beat_counterexample:
  "jgt (beats half_beat) (Fin 0) \<and> jgt (stepsPerBeat half_beat) (Fin 0) \<and>
   stepsPerBeat half_beat = Fin 2 \<and>
   runSimulation 65535 base half_beat =
     Some (Inr \<lparr>traceP = [\<lparr>tFrac = Fin 0, P_art = Fin (- 30), P_lv = Fin 55, V_lv = Fin 120\<rparr>],
               pvPoints = [\<lparr>pv_x = Fin 120, pv_y = Fin 55\<rparr>],
               EDV = Fin 120, ESV = Fin 120, SV = Fin 0, CO = Fin 0, MAP = Fin (- 30),
               SBP = Fin (- 30), DBP = Fin (- 30), PP = Fin 0, EF = Fin 0\<rparr>) \<and>
   num (length [\<lparr>tFrac = Fin 0, P_art = Fin (- 30), P_lv = Fin 55, V_lv = Fin 120\<rparr>]) \<noteq>
     stepsPerBeat half_beat"
  by (simp add: run_eval)

section \<open>The points of the pressure-volume loop\<close>

text \<open>
  Claim C10. In every result that a run returns, the \<open>pvPoints\<close> list has the length of
  the trace, and at every index its \<open>x\<close> is the ventricular volume and its \<open>y\<close> the
  ventricular pressure of the trace sample at that index.
\<close>

theorem pvPoints_mirror_trace:
  assumes "runSimulation L p opt = Some (Inr r)"
  shows "length (pvPoints r) = length (traceP r) \<and>
         (\<forall>i < length (traceP r).
            pv_x (pvPoints r ! i) = V_lv (traceP r ! i) \<and>
            pv_y (pvPoints r ! i) = P_lv (traceP r ! i))"
proof -
  from runSimulation_Inr [OF assms] have "pvPoints r = map pv_of (traceP r)"
    by blast
  then show ?thesis
    by (simp add: pv_of_def)
qed

theorem pvPoints_mirror_trace_witness:
  "runSimulation 65535 flat two_steps =
     Some (Inr \<lparr>traceP =
                 [\<lparr>tFrac = Fin 0, P_art = Fin (- 30), P_lv = Fin 55, V_lv = Fin 120\<rparr>,
                  \<lparr>tFrac = Fin (1 / 2), P_art = Fin (34030 / 3), P_lv = Fin 55,
                   V_lv = Fin (- 16880)\<rparr>],
               pvPoints = [\<lparr>pv_x = Fin 120, pv_y = Fin 55\<rparr>,
                           \<lparr>pv_x = Fin (- 16880), pv_y = Fin 55\<rparr>],
               EDV = Fin 120, ESV = Fin (- 16880), SV = Fin 17000, CO = Fin 1020,
               MAP = Fin (16970 / 3), SBP = Fin (34030 / 3), DBP = Fin (- 30),
               PP = Fin (34120 / 3), EF = Fin (42500 / 3)\<rparr>) \<and>
   length [\<lparr>pv_x = Fin 120, pv_y = Fin 55\<rparr>, \<lparr>pv_x = Fin (- 16880), pv_y = Fin 55\<rparr>] = 2 \<and>
   pv_x ([\<lparr>pv_x = Fin 120, pv_y = Fin 55\<rparr>, \<lparr>pv_x = Fin (- 16880), pv_y = Fin 55\<rparr>] ! 1) =
     Fin (- 16880) \<and>
   pv_y ([\<lparr>pv_x = Fin 120, pv_y = Fin 55\<rparr>, \<lparr>pv_x = Fin (- 16880), pv_y = Fin 55\<rparr>] ! 1) =
     Fin 55"
  using pvPoints_mirror_trace [OF run_flat_two_steps] run_flat_two_steps
  by simp

section \<open>No validation of the parameters\<close>

text \<open>
  Claim C1, as amended. \<open>runSimulation\<close> validates no parameter: whether a run returns,
  raises or never ends is the same for all parameter objects, so a heart rate, compliance
  or resistance \<open>\<le> 0\<close> or \<open>Emax \<le> Emin\<close> makes no run fail. With positive integer
  \<open>beats\<close> and \<open>stepsPerBeat\<close> (at most \<open>2^53\<close> steps in all, \<open>stepsPerBeat\<close> within
  the argument limit of the engine) the run returns a result whose trace has
  \<open>stepsPerBeat\<close> samples; with \<open>beats \<le> 0\<close> or \<open>stepsPerBeat \<le> 0\<close> and a loop that
  ends it returns a result with an empty trace.
\<close>

theorem no_parameter_validation:
  "(runSimulation L p opt = None \<longleftrightarrow> runSimulation L q opt = None) \<and>
   (runSimulation L p opt = Some (Inl RangeError) \<longleftrightarrow>
      runSimulation L q opt = Some (Inl RangeError)) \<and>
   (beats opt = num b \<and> stepsPerBeat opt = num s \<and> 0 < b \<and> 0 < s \<and>
      b * s \<le> 2 ^ 53 \<and> s \<le> L \<longrightarrow>
      (\<exists>r. runSimulation L p opt = Some (Inr r) \<and> length (traceP r) = s)) \<and>
   ((jle (beats opt) (Fin 0) \<or> jle (stepsPerBeat opt) (Fin 0)) \<and>
      iterations (totalSteps opt) \<noteq> None \<longrightarrow>
      (\<exists>r. runSimulation L p opt = Some (Inr r) \<and> traceP r = []))"
proof (intro conjI impI)
  show "runSimulation L p opt = None \<longleftrightarrow> runSimulation L q opt = None"
  proof (cases "iterations (totalSteps opt)")
    case None
    then show ?thesis
      by (simp add: runSimulation_never_ends)
  next
    case (Some N)
    then show ?thesis
      by (simp add: runSimulation_ends)
  qed
  show "runSimulation L p opt = Some (Inl RangeError) \<longleftrightarrow>
        runSimulation L q opt = Some (Inl RangeError)"
  proof (cases "iterations (totalSteps opt)")
    case None
    then show ?thesis
      by (simp add: runSimulation_never_ends)
  next
    case (Some N)
    then show ?thesis
      by (simp add: runSimulation_ends summary_cases)
  qed
next
  assume "beats opt = num b \<and> stepsPerBeat opt = num s \<and> 0 < b \<and> 0 < s \<and>
          b * s \<le> 2 ^ 53 \<and> s \<le> L"
  then have o: "beats opt = num b" "stepsPerBeat opt = num s" "0 < b" "0 < s"
    "b * s \<le> 2 ^ 53" and L: "s \<le> L"
    by simp_all
  let ?tr = "map (sampleAt p opt) [b * s - s ..< b * s]"
  from o(3) have "s \<le> b * s"
    by simp
  then have len: "length ?tr = s"
    by simp
  with L have "length ?tr \<le> L"
    by simp
  from summary_returns [OF this, of p "map pv_of ?tr"]
    runSimulation_ends [OF integer_options(1) [OF o], of L p] len
  show "\<exists>r. runSimulation L p opt = Some (Inr r) \<and> length (traceP r) = s"
    unfolding integer_options(2) [OF o] by auto
next
  assume a: "(jle (beats opt) (Fin 0) \<or> jle (stepsPerBeat opt) (Fin 0)) \<and>
             iterations (totalSteps opt) \<noteq> None"
  then obtain N where N: "iterations (totalSteps opt) = Some N"
    by blast
  from a have "jle (beats opt) (Fin 0) \<or> jle (stepsPerBeat opt) (Fin 0)"
    by simp
  from nonpositive_options [OF this N] runSimulation_ends [OF N, of L p]
    summary_returns [of "[]" L p "[]"]
  show "\<exists>r. runSimulation L p opt = Some (Inr r) \<and> traceP r = []"
    by auto
qed

theorem no_parameter_validation_witness:
  "beats one_step = num 1 \<and> stepsPerBeat one_step = num 1 \<and>
   (\<exists>r. runSimulation 65535 flat one_step = Some (Inr r) \<and> length (traceP r) = 1) \<and>
   jle (beats no_beats) (Fin 0) \<and> iterations (totalSteps no_beats) \<noteq> None \<and>
   (\<exists>r. runSimulation 65535 flat no_beats = Some (Inr r) \<and> traceP r = [])"
proof -
  have a: "beats one_step = num 1" "stepsPerBeat one_step = num 1"
    by (simp_all add: one_step_def num_def)
  have b: "jle (beats no_beats) (Fin 0)" "iterations (totalSteps no_beats) \<noteq> None"
    by (simp_all add: no_beats_def totalSteps_def)
  from no_parameter_validation [of 65535 flat one_step flat 1 1]
    no_parameter_validation [of 65535 flat no_beats flat 1 1] a b
  show ?thesis
    by simp
qed

text \<open>With \<open>Emax = Emin\<close> the step of a one-step run is executed and its sample
  returned.\<close>

theorem no_parameter_validation_counterexample:
  "jle (Emax flat) (Emin flat) \<and>
   runSimulation 65535 flat one_step =
     Some (Inr \<lparr>traceP = [\<lparr>tFrac = Fin 0, P_art = Fin (- 150), P_lv = Fin 55, V_lv = Fin 120\<rparr>],
               pvPoints = [\<lparr>pv_x = Fin 120, pv_y = Fin 55\<rparr>],
               EDV = Fin 120, ESV = Fin 120, SV = Fin 0, CO = Fin 0, MAP = Fin (- 150),
               SBP = Fin (- 150), DBP = Fin (- 150), PP = Fin 0, EF = Fin 0\<rparr>)"
  by (simp add: run_eval)

section \<open>The metrics of an empty trace\<close>

text \<open>
  Claim C8, as amended. The metrics of an empty trace are computed without a failure:
  \<open>EDV = -Infinity\<close>, \<open>ESV = +Infinity\<close>, \<open>SV = 0\<close>, \<open>CO = hr * 0 / 1000\<close>,
  \<open>MAP = NaN\<close>, \<open>SBP = -Infinity\<close>, \<open>DBP = +Infinity\<close>, \<open>PP = -Infinity\<close>,
  \<open>EF = 0\<close>. A run with \<open>beats \<le> 0\<close> or \<open>stepsPerBeat \<le> 0\<close> has an empty trace
  and returns exactly this record, unless its loop never ends (the product of two
  negative options is \<open>+Infinity\<close> or beyond \<open>2^53\<close>).
\<close>

theorem summary_of_empty_trace:
  "summary L p [] [] =
     Inr \<lparr>traceP = [], pvPoints = [], EDV = NInf, ESV = PInf, SV = Fin 0,
          CO = jdiv (jmul (hr p) (Fin 0)) (Fin 1000), MAP = NaN, SBP = NInf, DBP = PInf,
          PP = NInf, EF = Fin 0\<rparr> \<and>
   (jle (beats opt) (Fin 0) \<or> jle (stepsPerBeat opt) (Fin 0) \<longrightarrow>
      runSimulation L p opt =
        (if iterations (totalSteps opt) = None then None else Some (summary L p [] [])))"
proof (intro conjI impI)
  show "summary L p [] [] =
     Inr \<lparr>traceP = [], pvPoints = [], EDV = NInf, ESV = PInf, SV = Fin 0,
          CO = jdiv (jmul (hr p) (Fin 0)) (Fin 1000), MAP = NaN, SBP = NInf, DBP = PInf,
          PP = NInf, EF = Fin 0\<rparr>"
    by (simp add: summary_cases jsub_def jgt_def num_def)
next
  assume a: "jle (beats opt) (Fin 0) \<or> jle (stepsPerBeat opt) (Fin 0)"
  show "runSimulation L p opt =
          (if iterations (totalSteps opt) = None then None else Some (summary L p [] []))"
  proof (cases "iterations (totalSteps opt)")
    case None
    then show ?thesis
      by (simp add: runSimulation_never_ends)
  next
    case (Some N)
    from runSimulation_ends [OF Some, of L p] nonpositive_options [OF a Some] Some
    show ?thesis
      by simp
  qed
qed

theorem summary_of_empty_trace_witness:
  "jle (stepsPerBeat \<lparr>stepsPerBeat = Fin 0, beats = Fin 8\<rparr>) (Fin 0) \<and>
   runSimulation 65535 base \<lparr>stepsPerBeat = Fin 0, beats = Fin 8\<rparr> =
     Some (Inr \<lparr>traceP = [], pvPoints = [], EDV = NInf, ESV = PInf, SV = Fin 0,
               CO = Fin 0, MAP = NaN, SBP = NInf, DBP = PInf, PP = NInf, EF = Fin 0\<rparr>)"
  using summary_of_empty_trace [of 65535 base "\<lparr>stepsPerBeat = Fin 0, beats = Fin 8\<rparr>"]
  by (simp add: base_def totalSteps_def)

text \<open>A run of no beat returns the record; nothing fails.\<close>

theorem summary_of_empty_trace_counterexample:
  "traceP \<lparr>traceP = [], pvPoints = [], EDV = NInf, ESV = PInf, SV = Fin 0,
           CO = Fin 0, MAP = NaN, SBP = NInf, DBP = PInf, PP = NInf, EF = Fin 0\<rparr> = [] \<and>
   runSimulation 65535 base no_beats =
     Some (Inr \<lparr>traceP = [], pvPoints = [], EDV = NInf, ESV = PInf, SV = Fin 0,
               CO = Fin 0, MAP = NaN, SBP = NInf, DBP = PInf, PP = NInf, EF = Fin 0\<rparr>)"
  by (simp add: run_eval)

section \<open>Order of the extreme values\<close>

lemma foldl_Math_max_finite:
  assumes "\<forall>x \<in> set xs. isFinite x"
  shows "\<exists>m. foldl Math_max (Fin a) xs = Fin m \<and> a \<le> m"
  using assms
proof (induction xs arbitrary: a)
  case Nil
  show ?case by simp
next
  case (Cons x xs)
  then obtain r where x: "x = Fin r"
    by (cases x) simp_all
  from Cons.prems have "\<forall>x \<in> set xs. isFinite x" by simp
  from Cons.IH [OF this, of "max a r"]
  obtain m where "foldl Math_max (Fin (max a r)) xs = Fin m" "max a r \<le> m"
    by blast
  moreover have "Math_max (Fin a) (Fin r) = Fin (max a r)"
    by (simp add: max_def)
  ultimately show ?case
    unfolding x by (intro exI [of _ m]) simp
qed

lemma foldl_Math_min_finite:
  assumes "\<forall>x \<in> set xs. isFinite x"
  shows "\<exists>m. foldl Math_min (Fin a) xs = Fin m \<and> m \<le> a"
  using assms
proof (induction xs arbitrary: a)
  case Nil
  show ?case by simp
next
  case (Cons x xs)
  then obtain r where x: "x = Fin r"
    by (cases x) simp_all
  from Cons.prems have "\<forall>x \<in> set xs. isFinite x" by simp
  from Cons.IH [OF this, of "min a r"]
  obtain m where "foldl Math_min (Fin (min a r)) xs = Fin m" "m \<le> min a r"
    by blast
  moreover have "Math_min (Fin a) (Fin r) = Fin (min a r)"
    by (simp add: min_def)
  ultimately show ?case
    unfolding x by (intro exI [of _ m]) simp
qed

lemma extremes_finite:
  assumes "xs \<noteq> []" and "\<forall>x \<in> set xs. isFinite x"
  shows "\<exists>hi lo. foldl Math_max NInf xs = Fin hi \<and> foldl Math_min PInf xs = Fin lo \<and> lo \<le> hi"
proof -
  from assms(1) obtain x ys where xs: "xs = x # ys"
    by (cases xs) simp_all
  with assms(2) obtain r where x: "x = Fin r"
    by (cases x) simp_all
  from assms(2) xs have ys: "\<forall>x \<in> set ys. isFinite x" by simp
  from foldl_Math_max_finite [OF ys, of r]
  obtain hi where hi: "foldl Math_max (Fin r) ys = Fin hi" "r \<le> hi" by blast
  from foldl_Math_min_finite [OF ys, of r]
  obtain lo where lo: "foldl Math_min (Fin r) ys = Fin lo" "lo \<le> r" by blast
  show ?thesis
    using hi lo by (simp add: xs x)
qed

text \<open>
  Claim C9, as amended. For every result that a run returns whose trace is not empty and
  holds only finite ventricular volumes and arterial pressures, \<open>EDV \<ge> ESV\<close> and
  \<open>SBP \<ge> DBP\<close>, hence \<open>SV = EDV - ESV\<close> (the clamp \<open>max(0, EDV - ESV)\<close> changes
  nothing) and \<open>PP \<ge> 0\<close>.
\<close>

theorem metrics_ordered:
  assumes "runSimulation L p opt = Some (Inr r)"
    and "traceP r \<noteq> []"
    and "\<forall>s \<in> set (traceP r). isFinite (V_lv s) \<and> isFinite (P_art s)"
  shows "jge (EDV r) (ESV r) \<and> jge (SBP r) (DBP r) \<and>
         SV r = jsub (EDV r) (ESV r) \<and> jge (PP r) (Fin 0)"
proof -
  from runSimulation_Inr [OF assms(1)]
  have s: "summary L p (traceP r) (pvPoints r) = Inr r"
    by blast
  note f = summary_Inr(4-9) [OF s]
  have "\<exists>hi lo. foldl Math_max NInf (map V_lv (traceP r)) = Fin hi \<and>
          foldl Math_min PInf (map V_lv (traceP r)) = Fin lo \<and> lo \<le> hi"
    using assms(2,3) by (intro extremes_finite) simp_all
  then obtain vhi vlo where v: "EDV r = Fin vhi" "ESV r = Fin vlo" "vlo \<le> vhi"
    unfolding f(1,2) [symmetric] by blast
  have "\<exists>hi lo. foldl Math_max NInf (map P_art (traceP r)) = Fin hi \<and>
          foldl Math_min PInf (map P_art (traceP r)) = Fin lo \<and> lo \<le> hi"
    using assms(2,3) by (intro extremes_finite) simp_all
  then obtain phi plo where q: "SBP r = Fin phi" "DBP r = Fin plo" "plo \<le> phi"
    unfolding f(4,5) [symmetric] by blast
  show ?thesis
    unfolding f(3) f(6) unfolding v(1,2) q(1,2)
    using v(3) q(3) by (simp add: jge_def jsub_def)
qed

text \<open>A run of two steps with two different samples: \<open>EDV = 120 > ESV = -16880\<close> and
  \<open>SBP = 34030/3 > DBP = -30\<close>.\<close>

theorem metrics_ordered_witness:
  "runSimulation 65535 flat two_steps =
     Some (Inr \<lparr>traceP =
                 [\<lparr>tFrac = Fin 0, P_art = Fin (- 30), P_lv = Fin 55, V_lv = Fin 120\<rparr>,
                  \<lparr>tFrac = Fin (1 / 2), P_art = Fin (34030 / 3), P_lv = Fin 55,
                   V_lv = Fin (- 16880)\<rparr>],
               pvPoints = [\<lparr>pv_x = Fin 120, pv_y = Fin 55\<rparr>,
                           \<lparr>pv_x = Fin (- 16880), pv_y = Fin 55\<rparr>],
               EDV = Fin 120, ESV = Fin (- 16880), SV = Fin 17000, CO = Fin 1020,
               MAP = Fin (16970 / 3), SBP = Fin (34030 / 3), DBP = Fin (- 30),
               PP = Fin (34120 / 3), EF = Fin (42500 / 3)\<rparr>) \<and>
   isFinite (Fin 120) \<and> isFinite (Fin (- 16880)) \<and>
   isFinite (Fin (- 30)) \<and> isFinite (Fin (34030 / 3)) \<and>
   jge (Fin 120) (Fin (- 16880)) \<and> Fin 120 \<noteq> Fin (- 16880) \<and>
   jge (Fin (34030 / 3)) (Fin (- 30)) \<and> Fin (34030 / 3) \<noteq> Fin (- 30) \<and>
   Fin 17000 = jsub (Fin 120) (Fin (- 16880)) \<and>
   jge (Fin (34120 / 3)) (Fin 0)"
  using metrics_ordered [OF run_flat_two_steps] run_flat_two_steps
  by simp

text \<open>With a compliance of 0 the arterial pressure of the only sample is \<open>-Infinity\<close>,
  so that \<open>PP = -Infinity - (-Infinity)\<close> is NaN.\<close>

theorem metrics_ordered_counterexample:
  "runSimulation 65535 zero_comp one_step =
     Some (Inr \<lparr>traceP = [\<lparr>tFrac = Fin 0, P_art = NInf, P_lv = Fin 55, V_lv = Fin 120\<rparr>],
               pvPoints = [\<lparr>pv_x = Fin 120, pv_y = Fin 55\<rparr>],
               EDV = Fin 120, ESV = Fin 120, SV = Fin 0, CO = Fin 0, MAP = NInf,
               SBP = NInf, DBP = NInf, PP = NaN, EF = Fin 0\<rparr>) \<and>
   [\<lparr>tFrac = Fin 0, P_art = NInf, P_lv = Fin 55, V_lv = Fin 120\<rparr>] \<noteq> [] \<and>
   \<not> jge NaN (Fin 0)"
  by (simp add: run_eval)

section \<open>Non-finite state variables\<close>

lemma jadd_not_finite:
  "\<not> isFinite a \<Longrightarrow> \<not> isFinite (jadd a b)"
  by (cases a; cases b) simp_all

lemma loop_body_not_finite:
  "\<not> isFinite (v_V_lv v) \<Longrightarrow> \<not> isFinite (v_V_lv (loop_body p opt n v))"
  "\<not> isFinite (v_P_art v) \<Longrightarrow> \<not> isFinite (v_P_art (loop_body p opt n v))"
  by (simp_all add: loop_body_state jadd_not_finite)

text \<open>Whatever the state on entry, the body applied along a list of steps keeps the
  samples it has, and a state variable that is not finite stays so, in the state and in
  every sample added.\<close>

lemma fold_not_finite:
  "\<exists>new. v_traceP (fold (loop_body p opt) ns v) = v_traceP v @ new \<and>
     (\<not> isFinite (v_V_lv v) \<longrightarrow>
        \<not> isFinite (v_V_lv (fold (loop_body p opt) ns v)) \<and>
        (\<forall>s \<in> set new. \<not> isFinite (V_lv s))) \<and>
     (\<not> isFinite (v_P_art v) \<longrightarrow>
        \<not> isFinite (v_P_art (fold (loop_body p opt) ns v)) \<and>
        (\<forall>s \<in> set new. \<not> isFinite (P_art s)))"
proof (induction ns arbitrary: v)
  case Nil
  show ?case by simp
next
  case (Cons n ns)
  let ?v = "loop_body p opt n v"
  let ?w = "fold (loop_body p opt) ns ?v"
  from Cons.IH [of ?v] obtain new where new:
    "v_traceP ?w = v_traceP ?v @ new"
    "\<not> isFinite (v_V_lv ?v) \<longrightarrow>
       \<not> isFinite (v_V_lv ?w) \<and> (\<forall>s \<in> set new. \<not> isFinite (V_lv s))"
    "\<not> isFinite (v_P_art ?v) \<longrightarrow>
       \<not> isFinite (v_P_art ?w) \<and> (\<forall>s \<in> set new. \<not> isFinite (P_art s))"
    by blast
  obtain one where one: "v_traceP ?v = v_traceP v @ one"
    "\<forall>s \<in> set one. V_lv s = v_V_lv ?v \<and> P_art s = v_P_art ?v"
    by (cases "kept opt n") (simp_all add: loop_body_arrays(1))
  have "v_traceP (fold (loop_body p opt) (n # ns) v) = v_traceP v @ (one @ new)"
    using new(1) one(1) by simp
  moreover have "\<not> isFinite (v_V_lv (fold (loop_body p opt) (n # ns) v)) \<and>
                 (\<forall>s \<in> set (one @ new). \<not> isFinite (V_lv s))"
    if "\<not> isFinite (v_V_lv v)"
    using loop_body_not_finite(1) [OF that, of p opt n] new(2) one(2) by auto
  moreover have "\<not> isFinite (v_P_art (fold (loop_body p opt) (n # ns) v)) \<and>
                 (\<forall>s \<in> set (one @ new). \<not> isFinite (P_art s))"
    if "\<not> isFinite (v_P_art v)"
    using loop_body_not_finite(2) [OF that, of p opt n] new(3) one(2) by auto
  ultimately show ?case
    by blast
qed

text \<open>
  Claim C2, as amended. The loop makes no finiteness check and no run aborts with
  \<open>NumericalInstability\<close>. Entered at any step with any state, a loop that ends runs
  through all remaining steps: the samples accumulated so far are kept, and a
  ventricular volume or arterial pressure that is not finite on entry (by a division by
  zero or by an overflow) is not finite at the end and in every sample recorded from
  then on. The trace is then returned with the metrics computed from it, unless it is
  longer than the argument limit of the engine.
\<close>

theorem nonfinite_state_persists:
  assumes "iterations (totalSteps opt) = Some N"
  shows "run_loop p opt step v = Some (fold (loop_body p opt) [step ..< N] v) \<and>
         (\<exists>new. v_traceP (fold (loop_body p opt) [step ..< N] v) = v_traceP v @ new \<and>
            (\<not> isFinite (v_V_lv v) \<longrightarrow>
               \<not> isFinite (v_V_lv (fold (loop_body p opt) [step ..< N] v)) \<and>
               (\<forall>s \<in> set new. \<not> isFinite (V_lv s))) \<and>
            (\<not> isFinite (v_P_art v) \<longrightarrow>
               \<not> isFinite (v_P_art (fold (loop_body p opt) [step ..< N] v)) \<and>
               (\<forall>s \<in> set new. \<not> isFinite (P_art s)))) \<and>
         runSimulation L p opt =
           Some (summary L p (v_traceP (fold (loop_body p opt) [0 ..< N] (initial p)))
                   (v_pvPoints (fold (loop_body p opt) [0 ..< N] (initial p)))) \<and>
         (\<forall>tr pts. length tr \<le> L \<longrightarrow>
            (\<exists>r. summary L p tr pts = Inr r \<and> traceP r = tr \<and> pvPoints r = pts))"
proof (intro conjI)
  show "run_loop p opt step v = Some (fold (loop_body p opt) [step ..< N] v)"
    by (rule run_loop_fold [OF assms])
  show "\<exists>new. v_traceP (fold (loop_body p opt) [step ..< N] v) = v_traceP v @ new \<and>
            (\<not> isFinite (v_V_lv v) \<longrightarrow>
               \<not> isFinite (v_V_lv (fold (loop_body p opt) [step ..< N] v)) \<and>
               (\<forall>s \<in> set new. \<not> isFinite (V_lv s))) \<and>
            (\<not> isFinite (v_P_art v) \<longrightarrow>
               \<not> isFinite (v_P_art (fold (loop_body p opt) [step ..< N] v)) \<and>
               (\<forall>s \<in> set new. \<not> isFinite (P_art s)))"
    by (rule fold_not_finite)
  show "runSimulation L p opt =
           Some (summary L p (v_traceP (fold (loop_body p opt) [0 ..< N] (initial p)))
                   (v_pvPoints (fold (loop_body p opt) [0 ..< N] (initial p))))"
    by (simp only: runSimulation_def run_loop_fold [OF assms] option.case)
  show "\<forall>tr pts. length tr \<le> L \<longrightarrow>
            (\<exists>r. summary L p tr pts = Inr r \<and> traceP r = tr \<and> pvPoints r = pts)"
    using summary_returns by blast
qed

text \<open>With finite parameters and an arterial pressure of \<open>+Infinity\<close> on entry to the
  last step of a run of two steps, the step is executed and its sample, with
  \<open>P_art = NaN\<close>, is recorded; the metrics of such a trace are computed and returned.\<close>

theorem nonfinite_state_persists_witness:
  "iterations (totalSteps two_beats) = Some 2 \<and>
   \<not> isFinite (v_P_art overflowed) \<and>
   run_loop base two_beats 1 overflowed =
     Some \<lparr>v_V_lv = Fin 120, v_P_art = NaN,
           v_traceP = [\<lparr>tFrac = Fin 0, P_art = NaN, P_lv = Fin 55, V_lv = Fin 120\<rparr>],
           v_pvPoints = [\<lparr>pv_x = Fin 120, pv_y = Fin 55\<rparr>]\<rparr> \<and>
   \<not> isFinite NaN \<and>
   (\<exists>r. summary 65535 base
           [\<lparr>tFrac = Fin 0, P_art = NaN, P_lv = Fin 55, V_lv = Fin 120\<rparr>]
           [\<lparr>pv_x = Fin 120, pv_y = Fin 55\<rparr>] = Inr r \<and>
        traceP r = [\<lparr>tFrac = Fin 0, P_art = NaN, P_lv = Fin 55, V_lv = Fin 120\<rparr>])"
proof -
  have h: "iterations (totalSteps two_beats) = Some 2"
    by (simp add: two_beats_def totalSteps_def)
  have e: "fold (loop_body base two_beats) [1 ..< 2] overflowed =
     \<lparr>v_V_lv = Fin 120, v_P_art = NaN,
      v_traceP = [\<lparr>tFrac = Fin 0, P_art = NaN, P_lv = Fin 55, V_lv = Fin 120\<rparr>],
      v_pvPoints = [\<lparr>pv_x = Fin 120, pv_y = Fin 55\<rparr>]\<rparr>"
    by (simp add: upt_conv_Cons run_eval)
  have l: "length [\<lparr>tFrac = Fin 0, P_art = NaN, P_lv = Fin 55, V_lv = Fin 120\<rparr>] \<le> 65535"
    by simp
  note T = nonfinite_state_persists [OF h, of base 1 overflowed 65535]
  from T have a: "run_loop base two_beats 1 overflowed =
                    Some (fold (loop_body base two_beats) [1 ..< 2] overflowed)"
    by blast
  from T have "\<forall>tr pts. length tr \<le> 65535 \<longrightarrow>
      (\<exists>r. summary 65535 base tr pts = Inr r \<and> traceP r = tr \<and> pvPoints r = pts)"
    by blast
  from this [rule_format, OF l, of "[\<lparr>pv_x = Fin 120, pv_y = Fin 55\<rparr>]"]
  have b: "\<exists>r. summary 65535 base
           [\<lparr>tFrac = Fin 0, P_art = NaN, P_lv = Fin 55, V_lv = Fin 120\<rparr>]
           [\<lparr>pv_x = Fin 120, pv_y = Fin 55\<rparr>] = Inr r \<and>
        traceP r = [\<lparr>tFrac = Fin 0, P_art = NaN, P_lv = Fin 55, V_lv = Fin 120\<rparr>]"
    by blast
  have c: "\<not> isFinite (v_P_art overflowed)" "\<not> isFinite NaN"
    by (simp_all add: overflowed_def)
  from h a [unfolded e] b c show ?thesis
    by blast
qed

text \<open>With a compliance of 0 the arterial pressure is \<open>-Infinity\<close> after step 0; step 1
  is executed all the same and its sample, with \<open>P_art = NaN\<close> and
  \<open>V_lv = -Infinity\<close>, is returned with the metrics computed from it.\<close>

theorem nonfinite_state_persists_counterexample:
  "stateAt zero_comp two_beats (Suc 0) = (Fin 120, NInf) \<and>
   \<not> isFinite NInf \<and>
   runSimulation 65535 zero_comp two_beats =
     Some (Inr \<lparr>traceP = [\<lparr>tFrac = Fin 0, P_art = NaN, P_lv = Fin 55, V_lv = NInf\<rparr>],
               pvPoints = [\<lparr>pv_x = NInf, pv_y = Fin 55\<rparr>],
               EDV = NInf, ESV = NInf, SV = NaN, CO = NaN, MAP = NaN, SBP = NaN, DBP = NaN,
               PP = NaN, EF = Fin 0\<rparr>)"
  by (simp add: run_eval)

section \<open>The explicit Euler step\<close>

lemma jmul_commute: "jmul a b = jmul b a"
  by (cases a; cases b) (simp_all add: mult.commute)

lemma jmul_jdiv_swap: "jmul (jdiv a c) d = jdiv (jmul d a) c"
  by (cases a; cases c; cases d)
    (auto simp: sgn_if zero_less_mult_iff mult_less_0_iff zero_less_divide_iff
      divide_less_0_iff)

text \<open>
  Claim C3. One execution of the loop body takes the arterial pressure \<open>P\<close> to
  \<open>P + dt * (Qout - P / R) / C\<close> (in either reading of the product and quotient) and the
  ventricular volume \<open>V\<close> to \<open>V + dt * (Qin - Qout)\<close>, where the ventricular pressure,
  \<open>Qin\<close> and \<open>Qout\<close> are computed from the values \<open>V\<close> and \<open>P\<close> on entry to the
  step: the update of the volume does not see the updated pressure.
\<close>

theorem euler_step_simultaneous:
  "(let V = v_V_lv v;
        P = v_P_art v;
        dt = step_dt p opt;
        R = svr_to_Rperipheral (svr p);
        P_lv' = step_P_lv p opt step V;
        Qin = valveFlow (rap p) P_lv' (Fin (5 / 1000));
        Qout = valveFlow P_lv' P (Fin (25 / 10000));
        w = loop_body p opt step v
    in v_P_art w = jadd P (jmul dt (jdiv (jsub Qout (jdiv P R)) (comp' p))) \<and>
       v_P_art w = jadd P (jdiv (jmul dt (jsub Qout (jdiv P R))) (comp' p)) \<and>
       v_V_lv w = jadd V (jmul dt (jsub Qin Qout)))"
proof -
  let ?dt = "step_dt p opt"
  let ?P_lv = "step_P_lv p opt step (v_V_lv v)"
  let ?Qin = "valveFlow (rap p) ?P_lv (Fin (5 / 1000))"
  let ?Qout = "valveFlow ?P_lv (v_P_art v) (Fin (25 / 10000))"
  let ?X = "jsub ?Qout (jdiv (v_P_art v) (svr_to_Rperipheral (svr p)))"
  let ?w = "loop_body p opt step v"
  have P: "v_P_art ?w = jadd (v_P_art v) (jmul (jdiv ?X (comp' p)) ?dt)"
    unfolding loop_body_state step_Qout_def by (rule refl)
  have V: "v_V_lv ?w = jadd (v_V_lv v) (jmul (jsub ?Qin ?Qout) ?dt)"
    unfolding loop_body_state step_Qin_def step_Qout_def by (rule refl)
  have a: "jmul (jdiv ?X (comp' p)) ?dt = jmul ?dt (jdiv ?X (comp' p))"
    by (rule jmul_commute)
  have b: "jmul (jdiv ?X (comp' p)) ?dt = jdiv (jmul ?dt ?X) (comp' p)"
    by (rule jmul_jdiv_swap)
  have c: "jmul (jsub ?Qin ?Qout) ?dt = jmul ?dt (jsub ?Qin ?Qout)"
    by (rule jmul_commute)
  have "v_P_art ?w = jadd (v_P_art v) (jmul ?dt (jdiv ?X (comp' p)))"
    unfolding P a by (rule refl)
  moreover have "v_P_art ?w = jadd (v_P_art v) (jdiv (jmul ?dt ?X) (comp' p))"
    unfolding P b by (rule refl)
  moreover have "v_V_lv ?w = jadd (v_V_lv v) (jmul ?dt (jsub ?Qin ?Qout))"
    unfolding V c by (rule refl)
  ultimately show ?thesis
    unfolding Let_def by blast
qed

section \<open>The elastance waveform at the end of systole\<close>

lemma normalizedElastance_at_ts: "normalizedElastance ts = Fin (5 / 100)"
  by (simp add: normalizedElastance_def ts_def jsub_def)

lemma normalizedElastance_systole:
  assumes "0 \<le> t" and "t < 33 / 100"
  shows "normalizedElastance (Fin t) = Fin (sin (pi * (t / (33 / 100))) powr (3 / 2))"
    and "0 \<le> sin (pi * (t / (33 / 100)))"
proof -
  from assms have "0 \<le> pi * (t / (33 / 100))"
    by simp
  moreover from assms have "pi * (t / (33 / 100)) \<le> pi * 1"
    by (intro mult_left_mono) simp_all
  ultimately show s: "0 \<le> sin (pi * (t / (33 / 100)))"
    by (intro sin_ge_zero) simp_all
  then have "\<not> sin (pi * (t / (33 / 100))) < 0"
    by simp
  with assms(2) show "normalizedElastance (Fin t) = Fin (sin (pi * (t / (33 / 100))) powr (3 / 2))"
    by (simp add: normalizedElastance_def ts_def Math_PI_def)
qed

lemma systole_bound:
  assumes "0 \<le> t" and "t < 33 / 100"
  shows "sin (pi * (t / (33 / 100))) powr (3 / 2) \<le> pi * ((33 / 100 - t) / (33 / 100))"
proof -
  let ?y = "pi * (t / (33 / 100))"
  have s0: "0 \<le> sin ?y"
    using normalizedElastance_systole(2) [OF assms] .
  have "sin ?y powr (3 / 2) \<le> sin ?y powr 1"
    using s0 by (intro powr_mono') simp_all
  also have "\<dots> = sin ?y"
    using s0 by simp
  also have "\<dots> = sin (pi - ?y)"
    by simp
  also have "\<dots> \<le> pi - ?y"
  proof (rule sin_x_le_x)
    from assms have "pi * (t / (33 / 100)) \<le> pi * 1"
      by (intro mult_left_mono) simp_all
    then show "0 \<le> pi - ?y" by simp
  qed
  also have "\<dots> = pi * ((33 / 100 - t) / (33 / 100))"
    by (simp add: field_simps)
  finally show ?thesis .
qed

text \<open>
  Claim C6. \<open>normalizedElastance(0) = 0\<close>; at the phase \<open>ts = 0.33\<close> the diastolic branch
  is taken and the value is \<open>0.05\<close>; for phases approaching \<open>ts\<close> from below the value
  tends to 0. The waveform jumps by \<open>0.05\<close> at \<open>ts\<close>.
\<close>

theorem elastance_discontinuity:
  "normalizedElastance (Fin 0) = Fin 0 \<and>
   ts = Fin (33 / 100) \<and> \<not> jlt (Fin (33 / 100)) ts \<and>
   normalizedElastance (Fin (33 / 100)) = Fin (5 / 100) \<and>
   (\<forall>e > 0. \<exists>d > 0. \<forall>t. 33 / 100 - d < t \<and> t < 33 / 100 \<longrightarrow>
      (\<exists>v. normalizedElastance (Fin t) = Fin v \<and> \<bar>v\<bar> < e)) \<and>
   jsub (normalizedElastance (Fin (33 / 100))) (Fin 0) = Fin (5 / 100)"
proof -
  have limit: "\<exists>d > 0. \<forall>t. 33 / 100 - d < t \<and> t < 33 / 100 \<longrightarrow>
      (\<exists>v. normalizedElastance (Fin t) = Fin v \<and> \<bar>v\<bar> < e)" if "0 < e" for e :: real
  proof -
    define d where "d = min (33 / 100) (e * (33 / 100) / pi)"
    have d: "0 < d" "d \<le> 33 / 100" "pi * (d / (33 / 100)) \<le> e"
      using that by (simp_all add: d_def min_def field_simps)
    have "\<exists>v. normalizedElastance (Fin t) = Fin v \<and> \<bar>v\<bar> < e"
      if t: "33 / 100 - d < t" "t < 33 / 100" for t
    proof -
      let ?v = "sin (pi * (t / (33 / 100))) powr (3 / 2)"
      from t d(2) have t0: "0 \<le> t"
        by simp
      have "?v \<le> pi * ((33 / 100 - t) / (33 / 100))"
        using systole_bound [OF t0 t(2)] .
      also have "\<dots> < pi * (d / (33 / 100))"
        using t(1) by (intro mult_strict_left_mono divide_strict_right_mono) simp_all
      also have "\<dots> \<le> e"
        using d(3) .
      finally have "\<bar>?v\<bar> < e"
        by simp
      with normalizedElastance_systole(1) [OF t0 t(2)] show ?thesis
        by blast
    qed
    with d(1) show ?thesis
      by blast
  qed
  have at_ts: "normalizedElastance (Fin (33 / 100)) = Fin (5 / 100)"
    using normalizedElastance_at_ts by (simp add: ts_def)
  show ?thesis
    using limit by (simp add: normalizedElastance_at_0 at_ts jsub_def ts_def)
qed

theorem elastance_discontinuity_witness:
  "normalizedElastance (Fin 0) = Fin 0 \<and>
   normalizedElastance (Fin (33 / 100)) = Fin (5 / 100) \<and>
   (\<exists>d > 0. \<forall>t. 33 / 100 - d < t \<and> t < 33 / 100 \<longrightarrow>
      (\<exists>v. normalizedElastance (Fin t) = Fin v \<and> \<bar>v\<bar> < 1 / 100))"
proof -
  have "(0::real) < 1 / 100"
    by simp
  with elastance_discontinuity show ?thesis
    by blast
qed

section \<open>Valve flow\<close>

text \<open>
  Claim C7, as amended. For a valve resistance \<open>Rval > 0\<close> and pressures of which at
  least one is finite, \<open>valveFlow\<close> returns 0 whenever \<open>P_up \<le> P_down\<close> and
  \<open>(P_up - P_down) / Rval\<close> whenever \<open>P_up > P_down\<close>. For finite pressures the flow
  is at least 0, and for no argument at all (infinite or NaN included) is it below 0.
\<close>

theorem valveFlow_diode:
  assumes "jgt Rval (Fin 0)"
  shows "(isFinite P_up \<or> isFinite P_down \<longrightarrow>
            (jle P_up P_down \<longrightarrow> valveFlow P_up P_down Rval = Fin 0) \<and>
            (jgt P_up P_down \<longrightarrow>
               valveFlow P_up P_down Rval = jdiv (jsub P_up P_down) Rval)) \<and>
         (isFinite P_up \<and> isFinite P_down \<longrightarrow>
            jge (valveFlow P_up P_down Rval) (Fin 0)) \<and>
         \<not> jlt (valveFlow P_up P_down Rval) (Fin 0)"
  using assms
  by (cases P_up; cases P_down; cases Rval;
      simp add: valveFlow_def jsub_def jgt_def jge_def Let_def divide_less_0_iff)

theorem valveFlow_diode_witness:
  "jgt (Fin (5 / 1000)) (Fin 0) \<and> isFinite (Fin 2) \<and> isFinite (Fin 55) \<and>
   jle (Fin 2) (Fin 55) \<and> valveFlow (Fin 2) (Fin 55) (Fin (5 / 1000)) = Fin 0 \<and>
   jgt (Fin 55) (Fin 2) \<and> valveFlow (Fin 55) (Fin 2) (Fin (5 / 1000)) = Fin 10600 \<and>
   jge (valveFlow (Fin 55) (Fin 2) (Fin (5 / 1000))) (Fin 0) \<and>
   \<not> jlt (valveFlow (Fin 55) (Fin 2) (Fin (5 / 1000))) (Fin 0)"
proof -
  have R: "jgt (Fin (5 / 1000)) (Fin 0)"
    by (simp add: jgt_def)
  show ?thesis
    using R valveFlow_diode [OF R, of "Fin 2" "Fin 55"]
      valveFlow_diode [OF R, of "Fin 55" "Fin 2"]
    by (simp add: jgt_def jge_def jsub_def)
qed

text \<open>Two equal infinite pressures: \<open>Infinity - Infinity\<close> is NaN, the test
  \<open>dP <= 0\<close> fails and the flow is NaN, not 0.\<close>

theorem valveFlow_diode_counterexample:
  "jgt (Fin 1) (Fin 0) \<and> jle PInf PInf \<and>
   valveFlow PInf PInf (Fin 1) = NaN \<and> valveFlow PInf PInf (Fin 1) \<noteq> Fin 0"
  by (simp add: valveFlow_def jsub_def jgt_def)

end
